theory Spec2Isabelle
  imports Complex_Main "HOL-Library.Monad_Syntax"
begin

section \<open>Values of the host language\<close>

text \<open>
  A request body after \<^verbatim>\<open>request.json()\<close>: the \<^verbatim>\<open>unknown\<close> value handed to the validator.
  A number is the exact value of the double (every finite double is a rational; the schema
  only compares numbers with integer constants and tests integrality). A string is its list
  of code units, one \<^typ>\<open>char\<close> per unit (units below 256). An object is its list of
  properties; reading a property that is absent gives \<^verbatim>\<open>undefined\<close>, here \<^const>\<open>None\<close>.
\<close>

datatype json =
    JNull
  | JBool bool
  | JNum rat
  | JStr string
  | JArr "json list"
  | JObj "(string \<times> json) list"

definition property :: "(string \<times> json) list \<Rightarrow> string \<Rightarrow> json option" where
  "property fs k = map_of fs k"

text \<open>
  \<^verbatim>\<open>String.prototype.trim\<close>: white space and line terminators are removed at both ends.
  Below 256 these are TAB, LF, VT, FF, CR, SP and NBSP.
\<close>

definition is_ws :: "char \<Rightarrow> bool" where
  "is_ws c = ((of_char c :: nat) \<in> {9, 10, 11, 12, 13, 32, 160})"

definition trim :: "string \<Rightarrow> string" where
  "trim s = rev (dropWhile is_ws (rev (dropWhile is_ws s)))"

definition is_digit :: "char \<Rightarrow> bool" where
  "is_digit c = (48 \<le> (of_char c :: nat) \<and> (of_char c :: nat) \<le> 57)"

definition is_hex :: "char \<Rightarrow> bool" where
  "is_hex c = (is_digit c
     \<or> (65 \<le> (of_char c :: nat) \<and> (of_char c :: nat) \<le> 70)
     \<or> (97 \<le> (of_char c :: nat) \<and> (of_char c :: nat) \<le> 102))"

section \<open>The order schema (src/lib/types.ts)\<close>

text \<open>
  \<^verbatim>\<open>const ALGERIAN_PHONE_REGEX = /^(\+213|0)[5-7]\d{8}$/;\<close>
  The two alternatives of the group start with different characters, so at most one of
  them applies; what follows the group must be exactly nine characters, the first in
  \<^verbatim>\<open>[5-7]\<close>, the other eight digits. Without the \<^verbatim>\<open>m\<close> flag \<^verbatim>\<open>$\<close> is the end of the input.
\<close>

definition ALGERIAN_PHONE_REGEX :: "string \<Rightarrow> bool" where
  "ALGERIAN_PHONE_REGEX s =
     (case (if take 4 s = ''+213'' then Some (drop 4 s)
            else if take 1 s = ''0'' then Some (drop 1 s)
            else None) of
        None \<Rightarrow> False
      | Some r \<Rightarrow>
          (case r of
             [] \<Rightarrow> False
           | c # ds \<Rightarrow> c \<in> {CHR ''5'', CHR ''6'', CHR ''7''} \<and> length ds = 8 \<and> list_all is_digit ds))"

text \<open>
  Modelled from the spec: the validation library (zod) is a dependency of the repository,
  not part of it. Its \<^verbatim>\<open>uuid\<close> check is taken as the textual UUID format of the spec's data
  model (\<^verbatim>\<open>clientRequestId\<close>: "format: UUID"): five groups of 8, 4, 4, 4 and 12 hexadecimal
  digits separated by hyphens.
\<close>

definition is_uuid :: "string \<Rightarrow> bool" where
  "is_uuid s =
     (length s = 36
      \<and> list_all is_hex (take 8 s) \<and> s ! 8 = CHR ''-''
      \<and> list_all is_hex (take 4 (drop 9 s)) \<and> s ! 13 = CHR ''-''
      \<and> list_all is_hex (take 4 (drop 14 s)) \<and> s ! 18 = CHR ''-''
      \<and> list_all is_hex (take 4 (drop 19 s)) \<and> s ! 23 = CHR ''-''
      \<and> list_all is_hex (drop 24 s))"

text \<open>
  The library's issues. The source attaches an Arabic message to each check; the message
  is determined by the field and the check that failed, so an issue is kept as that pair.
\<close>

datatype issue_code = invalid_type | invalid_string | too_small | too_big | invalid_enum_value

type_synonym issue = "string \<times> issue_code"

text \<open>
  A string schema is the chain of its checks, run in the order in which they were chained
  on the value as it stands at that point: \<^verbatim>\<open>.trim()\<close> is one of the links and replaces the
  value for the links after it only. All checks run; every violation is collected.
\<close>

datatype string_check = Min nat | Max nat | Regex "string \<Rightarrow> bool" | Uuid | Trim

fun string_checks :: "string_check list \<Rightarrow> string \<Rightarrow> issue_code list \<times> string" where
  "string_checks [] s = ([], s)"
| "string_checks (Min n # cs) s =
     (let (is, s') = string_checks cs s
      in ((if length s < n then [too_small] else []) @ is, s'))"
| "string_checks (Max n # cs) s =
     (let (is, s') = string_checks cs s
      in ((if n < length s then [too_big] else []) @ is, s'))"
| "string_checks (Regex re # cs) s =
     (let (is, s') = string_checks cs s
      in ((if re s then [] else [invalid_string]) @ is, s'))"
| "string_checks (Uuid # cs) s =
     (let (is, s') = string_checks cs s
      in ((if is_uuid s then [] else [invalid_string]) @ is, s'))"
| "string_checks (Trim # cs) s = string_checks cs (trim s)"

definition z_string :: "string_check list \<Rightarrow> json option \<Rightarrow> issue_code list + string" where
  "z_string cs v =
     (case v of
        Some (JStr s) \<Rightarrow>
          (case string_checks cs s of
             ([], d) \<Rightarrow> Inr d
           | (i # is, d) \<Rightarrow> Inl (i # is))
      | _ \<Rightarrow> Inl [invalid_type])"

datatype number_check = IsInt | Positive | NMin rat | NMax rat

fun number_checks :: "number_check list \<Rightarrow> rat \<Rightarrow> issue_code list" where
  "number_checks [] x = []"
| "number_checks (IsInt # cs) x =
     (if of_int \<lfloor>x\<rfloor> = x then [] else [invalid_type]) @ number_checks cs x"
| "number_checks (Positive # cs) x =
     (if 0 < x then [] else [too_small]) @ number_checks cs x"
| "number_checks (NMin m # cs) x =
     (if m \<le> x then [] else [too_small]) @ number_checks cs x"
| "number_checks (NMax m # cs) x =
     (if x \<le> m then [] else [too_big]) @ number_checks cs x"

definition z_number :: "number_check list \<Rightarrow> json option \<Rightarrow> issue_code list + rat" where
  "z_number cs v =
     (case v of
        Some (JNum x) \<Rightarrow>
          (case number_checks cs x of
             [] \<Rightarrow> Inr x
           | i # is \<Rightarrow> Inl (i # is))
      | _ \<Rightarrow> Inl [invalid_type])"

definition z_optional ::
  "(json option \<Rightarrow> issue_code list + 'a) \<Rightarrow> json option \<Rightarrow> issue_code list + 'a option" where
  "z_optional schema v =
     (case v of
        None \<Rightarrow> Inr None
      | Some _ \<Rightarrow> (case schema v of Inl is \<Rightarrow> Inl is | Inr d \<Rightarrow> Inr (Some d)))"

datatype delivery = office | home

definition z_enum_delivery :: "json option \<Rightarrow> issue_code list + delivery" where
  "z_enum_delivery v =
     (case v of
        Some (JStr s) \<Rightarrow>
          (if s = ''office'' then Inr office
           else if s = ''home'' then Inr home
           else Inl [invalid_enum_value])
      | _ \<Rightarrow> Inl [invalid_type])"

text \<open>
  \<^verbatim>\<open>crypto.randomUUID()\<close> reads the platform's random source. The source is the sequence
  of the identifiers it will hand out; a call takes the first and leaves the rest.
\<close>

type_synonym rng = "nat \<Rightarrow> string"

definition randomUUID :: "rng \<Rightarrow> string \<times> rng" where
  "randomUUID r = (r 0, \<lambda>n. r (Suc n))"

text \<open>
  \<^verbatim>\<open>.optional().default(() => crypto.randomUUID())\<close>: the default is taken exactly when the
  input is \<^verbatim>\<open>undefined\<close>; any other input goes to the schema underneath. The identifiers
  of the random source are UUIDs, so checking the default against the schema underneath, as
  some versions of the library do, would change nothing. The optional schema underneath
  gives \<^verbatim>\<open>undefined\<close> only for an \<^verbatim>\<open>undefined\<close> input, which it never sees here.
\<close>

definition z_default_randomUUID ::
  "(json option \<Rightarrow> issue_code list + string option) \<Rightarrow> json option \<Rightarrow> rng
     \<Rightarrow> (issue_code list + string) \<times> rng" where
  "z_default_randomUUID schema v r =
     (case v of
        None \<Rightarrow> (let (u, r') = randomUUID r in (Inr u, r'))
      | Some _ \<Rightarrow>
          (case schema v of
             Inl is \<Rightarrow> (Inl is, r)
           | Inr None \<Rightarrow> (Inl [invalid_type], r)
           | Inr (Some d) \<Rightarrow> (Inr d, r)))"

text \<open>
  \<^verbatim>\<open>type OrderInput = z.infer<typeof OrderSchema>\<close>. The two fields under \<^verbatim>\<open>.int()\<close> hold
  integer-valued numbers and are kept as the integers they are.
\<close>

record order =
  clientRequestId :: string
  fullName :: string
  phone :: string
  wilayaId :: "int option"
  wilayaNameAr :: string
  baladiya :: string
  baladiyaNameAr :: string
  watchModelId :: int
  deliveryOption :: delivery
  totalPrice :: rat

definition at_path :: "string \<Rightarrow> issue_code list + 'a \<Rightarrow> issue list" where
  "at_path k r = (case r of Inl is \<Rightarrow> map (Pair k) is | Inr _ \<Rightarrow> [])"

definition parsed :: "'e + 'a \<Rightarrow> 'a option" where
  "parsed r = (case r of Inl _ \<Rightarrow> None | Inr d \<Rightarrow> Some d)"

text \<open>
  \<^verbatim>\<open>OrderSchema.safeParse(data)\<close>. A value that is not an object is one issue at the root.
  Otherwise every key of the shape is parsed, in the order of the shape, from the property
  of that name; keys outside the shape are dropped. The result is the record of the parsed
  fields when no field raised an issue, and the list of all issues otherwise.
\<close>

definition OrderSchema_safeParse :: "json \<Rightarrow> rng \<Rightarrow> (issue list + order) \<times> rng" where
  "OrderSchema_safeParse data r =
     (case data of
        JObj fs \<Rightarrow>
          (let (f_clientRequestId, r') =
                 z_default_randomUUID (z_optional (z_string [Uuid])) (property fs ''clientRequestId'') r;
               f_fullName = z_string [Min 2, Max 100, Trim] (property fs ''fullName'');
               f_phone = z_string [Regex ALGERIAN_PHONE_REGEX, Trim] (property fs ''phone'');
               f_wilayaId = z_optional (z_number [IsInt, Positive]) (property fs ''wilayaId'');
               f_wilayaNameAr = z_string [Min 2, Trim] (property fs ''wilayaNameAr'');
               f_baladiya = z_string [Min 1, Trim] (property fs ''baladiya'');
               f_baladiyaNameAr = z_string [Min 2, Trim] (property fs ''baladiyaNameAr'');
               f_watchModelId = z_number [IsInt, NMin 1, NMax 10] (property fs ''watchModelId'');
               f_deliveryOption = z_enum_delivery (property fs ''deliveryOption'');
               f_totalPrice = z_number [Positive, NMax 1000000] (property fs ''totalPrice'');
               issues =
                 at_path ''clientRequestId'' f_clientRequestId
                 @ at_path ''fullName'' f_fullName
                 @ at_path ''phone'' f_phone
                 @ at_path ''wilayaId'' f_wilayaId
                 @ at_path ''wilayaNameAr'' f_wilayaNameAr
                 @ at_path ''baladiya'' f_baladiya
                 @ at_path ''baladiyaNameAr'' f_baladiyaNameAr
                 @ at_path ''watchModelId'' f_watchModelId
                 @ at_path ''deliveryOption'' f_deliveryOption
                 @ at_path ''totalPrice'' f_totalPrice;
               output = do {
                 v_clientRequestId \<leftarrow> parsed f_clientRequestId;
                 v_fullName \<leftarrow> parsed f_fullName;
                 v_phone \<leftarrow> parsed f_phone;
                 v_wilayaId \<leftarrow> parsed f_wilayaId;
                 v_wilayaNameAr \<leftarrow> parsed f_wilayaNameAr;
                 v_baladiya \<leftarrow> parsed f_baladiya;
                 v_baladiyaNameAr \<leftarrow> parsed f_baladiyaNameAr;
                 v_watchModelId \<leftarrow> parsed f_watchModelId;
                 v_deliveryOption \<leftarrow> parsed f_deliveryOption;
                 v_totalPrice \<leftarrow> parsed f_totalPrice;
                 Some \<lparr> clientRequestId = v_clientRequestId, fullName = v_fullName,
                        phone = v_phone, wilayaId = map_option floor v_wilayaId,
                        wilayaNameAr = v_wilayaNameAr, baladiya = v_baladiya,
                        baladiyaNameAr = v_baladiyaNameAr, watchModelId = \<lfloor>v_watchModelId\<rfloor>,
                        deliveryOption = v_deliveryOption, totalPrice = v_totalPrice \<rparr>
               }
           in (case output of Some d \<Rightarrow> Inr d | None \<Rightarrow> Inl issues, r'))
      | _ \<Rightarrow> (Inl [('''', invalid_type)], r))"

text \<open>
  \<^verbatim>\<open>safeValidateOrder\<close> repackages the result: \<^verbatim>\<open>{ success: true, data }\<close> is \<^const>\<open>Inr\<close>,
  \<^verbatim>\<open>{ success: false, errors }\<close> is \<^const>\<open>Inl\<close>.
\<close>

definition safeValidateOrder :: "json \<Rightarrow> rng \<Rightarrow> (issue list + order) \<times> rng" where
  "safeValidateOrder data r =
     (let (result, r') = OrderSchema_safeParse data r
      in (case result of
            Inr d \<Rightarrow> (Inr d, r')
          | Inl errors \<Rightarrow> (Inl errors, r')))"

text \<open>\<^verbatim>\<open>PRICING\<close>, \<^verbatim>\<open>calculateTotal\<close> and \<^verbatim>\<open>getDeliveryCost\<close>.\<close>

definition BASE_PRICE :: rat where "BASE_PRICE = 1600"
definition ORIGINAL_PRICE :: rat where "ORIGINAL_PRICE = 2200"
definition DELIVERY_OFFICE :: rat where "DELIVERY_OFFICE = 500"
definition DELIVERY_HOME :: rat where "DELIVERY_HOME = 800"

definition calculateTotal :: "delivery \<Rightarrow> rat" where
  "calculateTotal option =
     BASE_PRICE + (if option = home then DELIVERY_HOME else DELIVERY_OFFICE)"

definition getDeliveryCost :: "delivery \<Rightarrow> rat" where
  "getDeliveryCost option =
     (if option = home then DELIVERY_HOME else DELIVERY_OFFICE)"

section \<open>The retry wrapper (withRetry)\<close>

text \<open>
  An operation \<^verbatim>\<open>fn: () => Promise<T>\<close> acts on the state of whatever it talks to and
  either resolves (\<^const>\<open>Inr\<close>) or rejects with the thrown value (\<^const>\<open>Inl\<close>). What the
  wrapper itself does is recorded as a trace: each call of \<^verbatim>\<open>fn\<close> and each
  \<^verbatim>\<open>setTimeout\<close> wait with its delay in milliseconds.

  \<^verbatim>\<open>lastError\<close> starts \<^verbatim>\<open>undefined\<close> (\<^const>\<open>None\<close>); the loop runs while
  \<^verbatim>\<open>attempt <= maxRetries\<close>; a success returns at once; a failure on
  \<^verbatim>\<open>attempt === maxRetries\<close> breaks out and \<^verbatim>\<open>lastError\<close> is thrown; any other failure waits
  \<^verbatim>\<open>baseDelay * Math.pow(2, attempt)\<close> and goes round again.
\<close>

datatype event = Invoke | Sleep int

function withRetry_loop ::
  "('s \<Rightarrow> ('e + 'a) \<times> 's) \<Rightarrow> int \<Rightarrow> int \<Rightarrow> int \<Rightarrow> 'e option \<Rightarrow> 's \<Rightarrow> event list
     \<Rightarrow> ('e option + 'a) \<times> 's \<times> event list" where
  "withRetry_loop fn maxRetries baseDelay attempt lastError s tr =
     (if attempt \<le> maxRetries then
        (case fn s of
           (Inr v, s') \<Rightarrow> (Inr v, s', tr @ [Invoke])
         | (Inl e, s') \<Rightarrow>
             (if attempt = maxRetries then (Inl (Some e), s', tr @ [Invoke])
              else withRetry_loop fn maxRetries baseDelay (attempt + 1) (Some e) s'
                     (tr @ [Invoke, Sleep (baseDelay * 2 ^ nat attempt)])))
      else (Inl lastError, s, tr))"
  by pat_completeness auto
termination
  by (relation "measure (\<lambda>(fn, maxRetries, baseDelay, attempt, lastError, s, tr).
        nat (maxRetries + 1 - attempt))") auto

definition withRetry ::
  "('s \<Rightarrow> ('e + 'a) \<times> 's) \<Rightarrow> int \<Rightarrow> int \<Rightarrow> 's \<Rightarrow> ('e option + 'a) \<times> 's \<times> event list" where
  "withRetry fn maxRetries baseDelay s = withRetry_loop fn maxRetries baseDelay 0 None s []"

section \<open>Configuration and the outside world\<close>

text \<open>
  \<^verbatim>\<open>process.env\<close>: a variable is a string or \<^verbatim>\<open>undefined\<close>. \<^verbatim>\<open>!v\<close> holds for
  \<^verbatim>\<open>undefined\<close> and for the empty string.
\<close>

record env =
  GOOGLE_SHEET_ID :: "string option"
  GOOGLE_SERVICE_ACCOUNT_EMAIL :: "string option"
  GOOGLE_PRIVATE_KEY :: "string option"
  SHEETS_ENABLED :: "string option"
  EMAIL_ENABLED :: "string option"
  SMTP_FROM_EMAIL :: "string option"
  SMTP_PASSWORD :: "string option"
  ORDER_NOTIFICATION_EMAIL :: "string option"
  VERCEL_URL :: "string option"

definition falsy :: "string option \<Rightarrow> bool" where
  "falsy v = (case v of None \<Rightarrow> True | Some s \<Rightarrow> s = [])"

text \<open>
  The collaborators the pipeline consumes. The spreadsheet is one document (its id, the
  title of its first sheet, the rows of that sheet); a cell holds a text or a number, as
  the rows the code sends do (\<^verbatim>\<open>(string | number)[]\<close>), and \<^verbatim>\<open>number_format\<close> is how the
  spreadsheet displays a number. A remote call may fail for reasons of its own: each call
  takes the next entry of the fault schedule of its service, \<^term>\<open>Some m\<close> being a failure
  with message \<^term>\<open>m\<close>; when the schedule is used up every call goes through. Every call
  to the spreadsheet is logged. The mail transport keeps what it has sent.
\<close>

datatype cell = Str string | Num rat

datatype sheets_call =
    SpreadsheetsGet
  | ValuesGet string
  | ValuesUpdate string
  | ValuesAppend string

record world =
  random :: rng
  now :: string
  spreadsheet_id :: string
  sheet_title :: string
  sheet :: "cell list list"
  number_format :: "rat \<Rightarrow> string"
  sheets_faults :: "string option list"
  sheets_calls :: "sheets_call list"
  smtp_faults :: "string option list"
  outbox :: "(string list \<times> order) list"

definition display :: "world \<Rightarrow> cell \<Rightarrow> string" where
  "display w c = (case c of Str s \<Rightarrow> s | Num x \<Rightarrow> number_format w x)"

definition blank :: "cell \<Rightarrow> bool" where
  "blank c = (c = Str [])"

text \<open>
  One request to the spreadsheet service: it is logged, takes its entry of the fault
  schedule, and is refused when it names another document or a sheet that is not there.
\<close>

definition sheets_request ::
  "string \<Rightarrow> string option \<Rightarrow> sheets_call \<Rightarrow> world \<Rightarrow> string option \<times> world" where
  "sheets_request sheetId sheetName c w =
     (let (fault, rest) = (case sheets_faults w of [] \<Rightarrow> (None, []) | f # fs \<Rightarrow> (f, fs));
          w' = w\<lparr>sheets_calls := sheets_calls w @ [c], sheets_faults := rest\<rparr>
      in (case fault of
            Some m \<Rightarrow> (Some m, w')
          | None \<Rightarrow>
              (if sheetId \<noteq> spreadsheet_id w then (Some ''Requested entity was not found.'', w')
               else if sheetName \<noteq> None \<and> sheetName \<noteq> Some (sheet_title w)
                 then (Some ''Unable to parse range'', w')
               else (None, w'))))"

text \<open>\<^verbatim>\<open>sheets.spreadsheets.get\<close>: the title of the first sheet.\<close>

definition spreadsheets_get :: "string \<Rightarrow> world \<Rightarrow> (string + string) \<times> world" where
  "spreadsheets_get sheetId w =
     (let (fault, w') = sheets_request sheetId None SpreadsheetsGet w
      in (case fault of Some m \<Rightarrow> (Inl m, w') | None \<Rightarrow> (Inr (sheet_title w'), w')))"

text \<open>
  \<^verbatim>\<open>sheets.spreadsheets.values.get\<close> for the two ranges the code reads. A row or a cell
  without content is left out of the answer; contents come as displayed.
\<close>

definition values_get_A1_Z1 ::
  "string \<Rightarrow> string \<Rightarrow> world \<Rightarrow> (string + string list list) \<times> world" where
  "values_get_A1_Z1 sheetId sheetName w =
     (let (fault, w') = sheets_request sheetId (Some sheetName) (ValuesGet ''A1:Z1'') w
      in (case fault of
            Some m \<Rightarrow> (Inl m, w')
          | None \<Rightarrow>
              (Inr (case sheet w' of
                      [] \<Rightarrow> []
                    | r # _ \<Rightarrow>
                        (if list_all blank (take 26 r) then []
                         else [map (display w') (take 26 r)])), w')))"

definition values_get_A2_A ::
  "string \<Rightarrow> string \<Rightarrow> world \<Rightarrow> (string + string list list) \<times> world" where
  "values_get_A2_A sheetId sheetName w =
     (let (fault, w') = sheets_request sheetId (Some sheetName) (ValuesGet ''A2:A'') w
      in (case fault of
            Some m \<Rightarrow> (Inl m, w')
          | None \<Rightarrow>
              (Inr (map (\<lambda>r. case r of
                               [] \<Rightarrow> []
                             | c # _ \<Rightarrow> (if blank c then [] else [display w' c]))
                        (drop 1 (sheet w'))), w')))"

text \<open>\<^verbatim>\<open>sheets.spreadsheets.values.update\<close> of \<^verbatim>\<open>A1:M1\<close>: the first thirteen cells of row 1.\<close>

definition values_update_A1_M1 ::
  "string \<Rightarrow> string \<Rightarrow> cell list \<Rightarrow> world \<Rightarrow> (string + unit) \<times> world" where
  "values_update_A1_M1 sheetId sheetName row w =
     (let (fault, w') = sheets_request sheetId (Some sheetName) (ValuesUpdate ''A1:M1'') w
      in (case fault of
            Some m \<Rightarrow> (Inl m, w')
          | None \<Rightarrow>
              (Inr (), w'\<lparr>sheet := (case sheet w' of
                                      [] \<Rightarrow> [take 13 row]
                                    | r # rs \<Rightarrow> (take 13 row @ drop 13 r) # rs)\<rparr>)))"

text \<open>
  \<^verbatim>\<open>sheets.spreadsheets.values.append\<close> with \<^verbatim>\<open>INSERT_ROWS\<close>: the row goes after the last
  row; the answer names the row it went to.
\<close>

definition values_append ::
  "string \<Rightarrow> string \<Rightarrow> cell list \<Rightarrow> world \<Rightarrow> (string + nat) \<times> world" where
  "values_append sheetId sheetName row w =
     (let (fault, w') = sheets_request sheetId (Some sheetName) (ValuesAppend ''A:K'') w
      in (case fault of
            Some m \<Rightarrow> (Inl m, w')
          | None \<Rightarrow> (Inr (Suc (length (sheet w'))), w'\<lparr>sheet := sheet w' @ [row]\<rparr>)))"

section \<open>The ledger writer and the duplicate guard (googleSheets service)\<close>

definition HEADER_ROW :: "cell list" where
  "HEADER_ROW =
     [Str ''Order ID'', Str ''Date'', Str ''Image Preview'', Str ''Name'', Str ''Phone'',
      Str ''Wilaya'', Str ''Baladiya'', Str ''Watch Model'', Str ''Model Number'',
      Str ''Quantity'', Str ''Delivery Type'', Str ''Total Price'', Str ''Status'']"

text \<open>
  \<^verbatim>\<open>getGoogleAuth\<close> and \<^verbatim>\<open>getSheetsClient\<close>: the client is built from the two credentials, and
  building it throws when one of them is missing. (Replacing the escaped line breaks of the
  key leaves a non-empty key non-empty.)
\<close>

definition getSheetsClient :: "env \<Rightarrow> string + unit" where
  "getSheetsClient e =
     (if falsy (GOOGLE_SERVICE_ACCOUNT_EMAIL e) \<or> falsy (GOOGLE_PRIVATE_KEY e)
      then Inl (''Missing Google Service Account credentials. ''
                @ ''Check GOOGLE_SERVICE_ACCOUNT_EMAIL and GOOGLE_PRIVATE_KEY environment variables.'')
      else Inr ())"

text \<open>\<^verbatim>\<open>getFirstSheetName\<close>: any failure, and a first sheet without a title, fall back to Sheet1.\<close>

definition getFirstSheetName :: "string \<Rightarrow> world \<Rightarrow> string \<times> world" where
  "getFirstSheetName sheetId w =
     (let (spreadsheet, w') = spreadsheets_get sheetId w
      in (case spreadsheet of
            Inl _ \<Rightarrow> (''Sheet1'', w')
          | Inr title \<Rightarrow> (if title = [] then (''Sheet1'', w') else (title, w'))))"

definition hasData :: "string \<Rightarrow> string \<Rightarrow> world \<Rightarrow> bool \<times> world" where
  "hasData sheetId sheetName w =
     (let (response, w') = values_get_A1_Z1 sheetId sheetName w
      in (case response of
            Inl _ \<Rightarrow> (False, w')
          | Inr rows \<Rightarrow> (0 < length rows, w')))"

definition createHeadersIfNeeded :: "string \<Rightarrow> string \<Rightarrow> world \<Rightarrow> world" where
  "createHeadersIfNeeded sheetId sheetName w =
     (let (hasExistingData, w1) = hasData sheetId sheetName w
      in (if hasExistingData then w1
          else (let (updated, w2) = values_update_A1_M1 sheetId sheetName HEADER_ROW w1
                in w2)))"

text \<open>Decimal digits of an integer, as a template literal prints it.\<close>

fun show_nat :: "nat \<Rightarrow> string" where
  "show_nat n =
     (if n < 10 then [char_of (48 + n)]
      else show_nat (n div 10) @ [char_of (48 + n mod 10)])"

definition show_int :: "int \<Rightarrow> string" where
  "show_int i = (if i < 0 then CHR ''-'' # show_nat (nat (- i)) else show_nat (nat i))"

text \<open>src/lib/utils/url.ts\<close>

definition getBaseUrl :: "env \<Rightarrow> string" where
  "getBaseUrl e =
     (case VERCEL_URL e of
        None \<Rightarrow> ''http://localhost:3000''
      | Some u \<Rightarrow> (if u = [] then ''http://localhost:3000'' else ''https://'' @ u))"

definition getWatchImageUrl :: "env \<Rightarrow> int \<Rightarrow> string" where
  "getWatchImageUrl e watchModelId' =
     getBaseUrl e @ ''/images/watches/'' @ show_int watchModelId' @ ''.webp''"

text \<open>
  \<^verbatim>\<open>formatOrderRow\<close>. The three Arabic literals of the source (the two delivery texts and the
  word before the model number) are written in Latin letters here. The schema drops the
  keys \<^verbatim>\<open>modelNumber\<close> and \<^verbatim>\<open>quantity\<close>, so columns I and J are their fallbacks.
\<close>

definition formatOrderRow :: "env \<Rightarrow> world \<Rightarrow> order \<Rightarrow> cell list" where
  "formatOrderRow e w orderData =
     (let deliveryText = (if deliveryOption orderData = home then ''manzil'' else ''maktab'');
          timestamp = now w;
          imageUrl = getWatchImageUrl e (watchModelId orderData);
          imageFormula = ''=IMAGE('' @ [CHR 0x22] @ imageUrl @ [CHR 0x22] @ '')''
      in [Str (clientRequestId orderData),
          Str timestamp,
          Str imageFormula,
          Str (fullName orderData),
          Str (phone orderData),
          Str (wilayaNameAr orderData),
          Str (baladiyaNameAr orderData),
          Str (''mudil '' @ show_int (watchModelId orderData)),
          Str [],
          Num 1,
          Str deliveryText,
          Num (totalPrice orderData),
          Str ''New''])"

text \<open>The outcome of an integration: \<^verbatim>\<open>{ success; rowNumber?; error? }\<close>.\<close>

record outcome =
  success :: bool
  rowNumber :: "nat option"
  error :: "string option"

text \<open>
  \<^verbatim>\<open>error instanceof Error ? error.message : 'Unknown error'\<close>: thrown errors are kept as
  their messages; \<^verbatim>\<open>undefined\<close> is not an error object.
\<close>

definition errorMessage :: "string option \<Rightarrow> string" where
  "errorMessage thrown = (case thrown of Some m \<Rightarrow> m | None \<Rightarrow> ''Unknown error'')"

text \<open>The operation \<^verbatim>\<open>saveOrder\<close> hands to the wrapper: one attempt to append the order.\<close>

definition saveOrder_attempt ::
  "env \<Rightarrow> order \<Rightarrow> string \<Rightarrow> world \<Rightarrow> (string + outcome) \<times> world" where
  "saveOrder_attempt e orderData sheetId w =
     (case getSheetsClient e of
        Inl m \<Rightarrow> (Inl m, w)
      | Inr sheets \<Rightarrow>
          (let (sheetName, w1) = getFirstSheetName sheetId w;
               w2 = createHeadersIfNeeded sheetId sheetName w1;
               rowValues = formatOrderRow e w2 orderData;
               (response, w3) = values_append sheetId sheetName rowValues w2
           in (case response of
                 Inl m \<Rightarrow> (Inl m, w3)
               | Inr n \<Rightarrow> (Inr \<lparr>success = True, rowNumber = Some n, error = None\<rparr>, w3))))"

definition saveOrder :: "env \<Rightarrow> order \<Rightarrow> world \<Rightarrow> outcome \<times> world" where
  "saveOrder e orderData w =
     (if falsy (GOOGLE_SHEET_ID e) then
        (\<lparr>success = False, rowNumber = None,
          error = Some ''GOOGLE_SHEET_ID environment variable is not set''\<rparr>, w)
      else if SHEETS_ENABLED e = Some ''false'' then
        (\<lparr>success = True, rowNumber = None, error = None\<rparr>, w)
      else
        (case withRetry (saveOrder_attempt e orderData (the (GOOGLE_SHEET_ID e))) 3 1000 w of
           (Inr result, w', tr) \<Rightarrow> (result, w')
         | (Inl thrown, w', tr) \<Rightarrow>
             (\<lparr>success = False, rowNumber = None, error = Some (errorMessage thrown)\<rparr>, w')))"

text \<open>
  \<^verbatim>\<open>checkDuplicateOrder\<close>: the body of its \<^verbatim>\<open>try\<close>, where a failure is still a thrown value,
  and the function itself, whose \<^verbatim>\<open>catch\<close> turns every thrown value into \<^verbatim>\<open>false\<close>.
\<close>

definition checkDuplicateOrder_try ::
  "env \<Rightarrow> string \<Rightarrow> world \<Rightarrow> (string + bool) \<times> world" where
  "checkDuplicateOrder_try e clientRequestId' w =
     (if falsy (GOOGLE_SHEET_ID e) then (Inr False, w)
      else if SHEETS_ENABLED e = Some ''false'' then (Inr False, w)
      else
        (case getSheetsClient e of
           Inl m \<Rightarrow> (Inl m, w)
         | Inr sheets \<Rightarrow>
             (let sheetId = the (GOOGLE_SHEET_ID e);
                  (sheetName, w1) = getFirstSheetName sheetId w;
                  (response, w2) = values_get_A2_A sheetId sheetName w1
              in (case response of
                    Inl m \<Rightarrow> (Inl m, w2)
                  | Inr rows \<Rightarrow>
                      (let orderIds = map trim (concat rows)
                       in (Inr (clientRequestId' \<in> set orderIds), w2))))))"

definition checkDuplicateOrder :: "env \<Rightarrow> string \<Rightarrow> world \<Rightarrow> bool \<times> world" where
  "checkDuplicateOrder e clientRequestId' w =
     (case checkDuplicateOrder_try e clientRequestId' w of
        (Inr isDuplicate, w') \<Rightarrow> (isDuplicate, w')
      | (Inl thrown, w') \<Rightarrow> (False, w'))"

section \<open>The notifier (email service)\<close>

definition createTransporter :: "env \<Rightarrow> string + unit" where
  "createTransporter e =
     (if falsy (SMTP_FROM_EMAIL e) \<or> falsy (SMTP_PASSWORD e)
      then Inl (''Missing SMTP configuration. ''
                @ ''Check SMTP_FROM_EMAIL and SMTP_PASSWORD environment variables.'')
      else Inr ())"

definition smtp_request :: "world \<Rightarrow> string option \<times> world" where
  "smtp_request w =
     (case smtp_faults w of
        [] \<Rightarrow> (None, w)
      | f # fs \<Rightarrow> (f, w\<lparr>smtp_faults := fs\<rparr>))"

definition verifyConnection :: "world \<Rightarrow> bool \<times> world" where
  "verifyConnection w =
     (let (fault, w') = smtp_request w
      in (case fault of Some m \<Rightarrow> (False, w') | None \<Rightarrow> (True, w')))"

fun split_on :: "char \<Rightarrow> string \<Rightarrow> string list" where
  "split_on c [] = [] # []"
| "split_on c (x # xs) =
     (case split_on c xs of
        [] \<Rightarrow> [x] # []
      | p # ps \<Rightarrow> (if x = c then [] # p # ps else (x # p) # ps))"

definition getRecipients :: "env \<Rightarrow> string + string list" where
  "getRecipients e =
     (if falsy (ORDER_NOTIFICATION_EMAIL e) then
        (if \<not> falsy (SMTP_FROM_EMAIL e) then Inr [the (SMTP_FROM_EMAIL e)]
         else Inl (''No recipient email specified. ''
                   @ ''Set ORDER_NOTIFICATION_EMAIL or SMTP_FROM_EMAIL''))
      else Inr (filter (\<lambda>email. 0 < length email)
                  (map trim (split_on CHR '','' (the (ORDER_NOTIFICATION_EMAIL e))))))"

text \<open>
  \<^verbatim>\<open>transporter.sendMail\<close>: one message to all recipients. The transport refuses a message
  without recipients. The rendered texts are functions of the order; the sent message is
  kept as its recipients and the order.
\<close>

definition sendMail :: "string list \<Rightarrow> order \<Rightarrow> world \<Rightarrow> (string + unit) \<times> world" where
  "sendMail recipients orderData w =
     (let (fault, w') = smtp_request w
      in (case fault of
            Some m \<Rightarrow> (Inl m, w')
          | None \<Rightarrow>
              (if recipients = [] then (Inl ''No recipients defined'', w')
               else (Inr (), w'\<lparr>outbox := outbox w' @ [(recipients, orderData)]\<rparr>))))"

definition sendOrderEmail_attempt :: "env \<Rightarrow> order \<Rightarrow> world \<Rightarrow> (string + outcome) \<times> world" where
  "sendOrderEmail_attempt e orderData w =
     (case createTransporter e of
        Inl m \<Rightarrow> (Inl m, w)
      | Inr transporter \<Rightarrow>
          (let (isVerified, w1) = verifyConnection w
           in (if \<not> isVerified then (Inl ''SMTP connection verification failed'', w1)
               else
                 (case getRecipients e of
                    Inl m \<Rightarrow> (Inl m, w1)
                  | Inr recipients \<Rightarrow>
                      (let (info, w2) = sendMail recipients orderData w1
                       in (case info of
                             Inl m \<Rightarrow> (Inl m, w2)
                           | Inr _ \<Rightarrow>
                               (Inr \<lparr>success = True, rowNumber = None, error = None\<rparr>, w2)))))))"

definition sendOrderEmail :: "env \<Rightarrow> order \<Rightarrow> world \<Rightarrow> outcome \<times> world" where
  "sendOrderEmail e orderData w =
     (case withRetry (sendOrderEmail_attempt e orderData) 3 1000 w of
        (Inr result, w', tr) \<Rightarrow> (result, w')
      | (Inl thrown, w', tr) \<Rightarrow>
          (\<lparr>success = False, rowNumber = None, error = Some (errorMessage thrown)\<rparr>, w'))"

section \<open>The orchestrator (POST /api/submit-order)\<close>

text \<open>
  What \<^verbatim>\<open>await request.json()\<close> does: it resolves with the parsed body, or rejects with a
  \<^verbatim>\<open>SyntaxError\<close>, or rejects with something else.
\<close>

datatype request = Resolves json | RejectsSyntaxError | RejectsOther

text \<open>
  The texts of the \<^verbatim>\<open>error\<close> field are Arabic sentences; each is named by its place in
  the handler. For a schema violation it is the message of the first issue.
\<close>

datatype error_text =
    FirstIssue issue
  | InvalidData
  | AlreadyReceived
  | AllChannelsDisabled
  | ProcessingFailed
  | BadFormat
  | Unexpected

record response =
  status :: nat
  body_success :: bool
  body_error :: "error_text option"
  details :: "issue list option"
  duplicate :: "bool option"
  body_clientRequestId :: "string option"
  sheetSaved :: "bool option"
  emailSent :: "bool option"

definition failure :: "nat \<Rightarrow> error_text \<Rightarrow> response" where
  "failure code text =
     \<lparr>status = code, body_success = False, body_error = Some text, details = None,
      duplicate = None, body_clientRequestId = None, sheetSaved = None, emailSent = None\<rparr>"

text \<open>
  The handler. The two integrations are started together and awaited with
  \<^verbatim>\<open>Promise.allSettled\<close>; they act on different collaborators (the spreadsheet, the mail
  transport), so running one after the other gives each the same outcome. Neither promise
  can reject, each integration catching what it throws; a settled result is therefore the
  outcome itself, and \<^const>\<open>None\<close> for an integration that was not started.
\<close>

definition POST :: "env \<Rightarrow> request \<Rightarrow> world \<Rightarrow> response \<times> world" where
  "POST e req w =
     (case req of
        RejectsSyntaxError \<Rightarrow> (failure 400 BadFormat, w)
      | RejectsOther \<Rightarrow> (failure 500 Unexpected, w)
      | Resolves body \<Rightarrow>
          (let (validation, r') = safeValidateOrder body (random w);
               w0 = w\<lparr>random := r'\<rparr>
           in (case validation of
                 Inl issues \<Rightarrow>
                   ((failure 400 (case issues of [] \<Rightarrow> InvalidData | firstError # _ \<Rightarrow> FirstIssue firstError))
                      \<lparr>details := Some issues\<rparr>, w0)
               | Inr orderData \<Rightarrow>
                   (let (isDuplicate, w1) = checkDuplicateOrder e (clientRequestId orderData) w0
                    in (if isDuplicate then
                          ((failure 409 AlreadyReceived)\<lparr>duplicate := Some True\<rparr>, w1)
                        else
                          (let sheetsEnabled = (SHEETS_ENABLED e \<noteq> Some ''false'');
                               emailEnabled = (EMAIL_ENABLED e \<noteq> Some ''false'')
                           in (if \<not> sheetsEnabled \<and> \<not> emailEnabled then
                                 (failure 500 AllChannelsDisabled, w1)
                               else
                                 (let (sheetResult, w2) =
                                        (if sheetsEnabled
                                         then (let (res, w') = saveOrder e orderData w1 in (Some res, w'))
                                         else (None, w1));
                                      (emailResult, w3) =
                                        (if emailEnabled
                                         then (let (res, w') = sendOrderEmail e orderData w2 in (Some res, w'))
                                         else (None, w2));
                                      sheetSuccess =
                                        (case sheetResult of Some res \<Rightarrow> success res | None \<Rightarrow> True);
                                      emailSuccess =
                                        (case emailResult of Some res \<Rightarrow> success res | None \<Rightarrow> True);
                                      allEnabledFailed =
                                        ((sheetsEnabled \<and> \<not> sheetSuccess) \<and> (emailEnabled \<and> \<not> emailSuccess))
                                  in (if allEnabledFailed then (failure 500 ProcessingFailed, w3)
                                      else
                                        (\<lparr>status = 200, body_success = True, body_error = None,
                                          details = None, duplicate = None,
                                          body_clientRequestId = Some (clientRequestId orderData),
                                          sheetSaved = Some sheetSuccess,
                                          emailSent = Some emailSuccess\<rparr>, w3))))))))))"

section \<open>Ledger records\<close>





text \<open>
  The spreadsheet answers requests for the document \<open>sid\<close>: that is the document there
  is, its first sheet has a title, and no request is going to fail.
\<close>

definition ready :: "string \<Rightarrow> world \<Rightarrow> bool" where
  "ready sid w = (spreadsheet_id w = sid \<and> sheet_title w \<noteq> [] \<and> sheets_faults w = [])"


section \<open>Sample inputs\<close>

text \<open>An operation that never succeeds: its call number \<^term>\<open>n\<close> fails with error \<^term>\<open>n\<close>.\<close>

definition always_failing :: "nat \<Rightarrow> (nat + unit) \<times> nat" where
  "always_failing n = (Inl n, Suc n)"

text \<open>An operation that fails twice and succeeds from then on, returning its call number.\<close>

definition failing_twice :: "nat \<Rightarrow> (nat + nat) \<times> nat" where
  "failing_twice n = (if n < 2 then Inl n else Inr n, Suc n)"

definition sample_id :: string where
  "sample_id = ''123e4567-e89b-42d3-a456-426614174000''"

definition sample_fields :: "string \<Rightarrow> string \<Rightarrow> rat \<Rightarrow> (string \<times> json) list" where
  "sample_fields name tel price =
     [(''fullName'', JStr name), (''phone'', JStr tel), (''wilayaNameAr'', JStr ''Alger''),
      (''baladiya'', JStr ''Bab El Oued''), (''baladiyaNameAr'', JStr ''Bab El Oued''),
      (''watchModelId'', JNum 3), (''deliveryOption'', JStr ''home''),
      (''totalPrice'', JNum price)]"

definition sample_submission :: "string \<Rightarrow> string \<Rightarrow> rat \<Rightarrow> json" where
  "sample_submission name tel price =
     JObj ((''clientRequestId'', JStr sample_id) # sample_fields name tel price)"

definition sample_order :: order where
  "sample_order =
     \<lparr>clientRequestId = sample_id, fullName = ''Ali Benali'', phone = ''0555123456'',
      wilayaId = None, wilayaNameAr = ''Alger'', baladiya = ''Bab El Oued'',
      baladiyaNameAr = ''Bab El Oued'', watchModelId = 3, deliveryOption = home,
      totalPrice = 2400\<rparr>"

definition sample_rng :: rng where
  "sample_rng n =
     (if n = 0 then ''aaaaaaaa-aaaa-4aaa-8aaa-aaaaaaaaaaaa''
      else ''bbbbbbbb-bbbb-4bbb-8bbb-bbbbbbbbbbbb'')"

definition sample_env :: env where
  "sample_env =
     \<lparr>GOOGLE_SHEET_ID = Some ''sheet-1'',
      GOOGLE_SERVICE_ACCOUNT_EMAIL = Some ''orders@example.iam'',
      GOOGLE_PRIVATE_KEY = Some ''key'',
      SHEETS_ENABLED = None, EMAIL_ENABLED = None,
      SMTP_FROM_EMAIL = Some ''shop@example.com'', SMTP_PASSWORD = Some ''secret'',
      ORDER_NOTIFICATION_EMAIL = None, VERCEL_URL = None\<rparr>"

definition sample_world :: world where
  "sample_world =
     \<lparr>random = sample_rng, now = ''2026-01-01T00:00:00.000Z'', spreadsheet_id = ''sheet-1'',
      sheet_title = ''Orders'', sheet = [], number_format = show_int \<circ> floor,
      sheets_faults = [], sheets_calls = [], smtp_faults = [], outbox = []\<rparr>"

text \<open>Configurations and worlds derived from the samples.\<close>

definition env_sheets_off :: env where
  "env_sheets_off = sample_env\<lparr>SHEETS_ENABLED := Some ''false''\<rparr>"

definition env_sheets_off_no_id :: env where
  "env_sheets_off_no_id = sample_env\<lparr>SHEETS_ENABLED := Some ''false'', GOOGLE_SHEET_ID := None\<rparr>"

definition env_sheets_off_no_smtp :: env where
  "env_sheets_off_no_smtp = sample_env\<lparr>SHEETS_ENABLED := Some ''false'', SMTP_PASSWORD := None\<rparr>"

definition env_no_credentials :: env where
  "env_no_credentials = sample_env\<lparr>GOOGLE_PRIVATE_KEY := None, SMTP_PASSWORD := None\<rparr>"

definition world_with_record :: world where
  "world_with_record = sample_world\<lparr>sheet := [HEADER_ROW, [Str sample_id]]\<rparr>"

definition world_outage :: world where
  "world_outage =
     world_with_record\<lparr>sheets_faults := [Some ''ECONNRESET'', Some ''ECONNRESET'']\<rparr>"



section \<open>Facts about strings and the field schemas\<close>

lemma trim_unchanged:
  assumes "s \<noteq> []" and "\<not> is_ws (hd s)" and "\<not> is_ws (last s)"
  shows "trim s = s"
proof -
  from assms(1,2) have front: "dropWhile is_ws s = s"
    by (cases s) simp_all
  from assms(1,3) have "dropWhile is_ws (rev s) = rev s"
    by (cases "rev s") (simp_all add: hd_rev)
  with front show ?thesis
    by (simp add: trim_def)
qed

lemma digit_not_ws: "is_digit c \<Longrightarrow> \<not> is_ws c"
  by (auto simp: is_digit_def is_ws_def)


lemma phone_regex_shape:
  assumes "ALGERIAN_PHONE_REGEX s"
  shows "s \<noteq> [] \<and> \<not> is_ws (hd s) \<and> \<not> is_ws (last s)"
proof -
  from assms obtain p c ds where s: "s = p @ c # ds" and p: "p = ''+213'' \<or> p = ''0''"
    and ds: "length ds = 8" "list_all is_digit ds"
    by (auto simp: ALGERIAN_PHONE_REGEX_def split: if_splits list.splits)
       (metis append_take_drop_id)+
  from ds have "ds \<noteq> []" by auto
  with ds have "is_digit (last ds)"
    by (metis last_in_set list_all_iff)
  then have "\<not> is_ws (last s)"
    using s \<open>ds \<noteq> []\<close> by (simp add: digit_not_ws)
  moreover have "\<not> is_ws (hd s)"
    using s p by (auto simp: is_ws_def)
  ultimately show ?thesis using s by simp
qed

lemma phone_regex_trim: "ALGERIAN_PHONE_REGEX s \<Longrightarrow> trim s = s"
  using phone_regex_shape trim_unchanged by blast


lemma z_string_phone:
  "z_string [Regex ALGERIAN_PHONE_REGEX, Trim] v = Inr p
     \<longleftrightarrow> v = Some (JStr p) \<and> ALGERIAN_PHONE_REGEX p"
  by (auto simp: z_string_def phone_regex_trim split: option.splits json.splits)


lemma default_present:
  "z_default_randomUUID (z_optional s) (Some x) r = (s (Some x), r)"
  by (simp add: z_default_randomUUID_def z_optional_def split: sum.splits)

lemma default_absent:
  "z_default_randomUUID sch None r = (Inr (r 0), \<lambda>n. r (Suc n))"
  by (simp add: z_default_randomUUID_def randomUUID_def)

lemma parsed_Inr: "parsed (Inr x) = Some x"
  by (simp add: parsed_def)

lemma at_path_Inr: "at_path k (Inr x) = []"
  by (simp add: at_path_def)

lemma validated_fields:
  assumes "fst (safeValidateOrder (JObj fs) r) = Inr d"
  shows "parsed (fst (z_default_randomUUID (z_optional (z_string [Uuid]))
                        (property fs ''clientRequestId'') r)) = Some (clientRequestId d)"
    and "z_string [Min 2, Max 100, Trim] (property fs ''fullName'') = Inr (fullName d)"
    and "z_string [Regex ALGERIAN_PHONE_REGEX, Trim] (property fs ''phone'') = Inr (phone d)"
    and "z_number [Positive, NMax 1000000] (property fs ''totalPrice'') = Inr (totalPrice d)"
    and "z_enum_delivery (property fs ''deliveryOption'') = Inr (deliveryOption d)"
  using assms
  by (auto simp: safeValidateOrder_def OrderSchema_safeParse_def Let_def parsed_def
      split: prod.splits sum.splits option.splits Option.bind_splits)

lemma sample_submission_valid:
  "fst (safeValidateOrder (sample_submission ''Ali Benali'' ''0555123456'' 2400) sample_rng)
     = Inr sample_order"
  by code_simp

lemma phone_international: "ALGERIAN_PHONE_REGEX ''+213555123456''"
  by code_simp

lemma phone_domestic: "ALGERIAN_PHONE_REGEX ''0555123456''"
  by code_simp

lemma phone_bad_prefix: "\<not> ALGERIAN_PHONE_REGEX ''0455123456''"
  by code_simp

lemma replace_phone:
  assumes "fst (safeValidateOrder (JObj fs) r) = Inr d" and "ALGERIAN_PHONE_REGEX p"
  shows "fst (safeValidateOrder (JObj ((''phone'', JStr p) # fs)) r) = Inr (d\<lparr>phone := p\<rparr>)"
proof -
  have new: "z_string [Regex ALGERIAN_PHONE_REGEX, Trim] (Some (JStr p)) = Inr p"
    using assms(2) by (simp add: z_string_phone)
  from assms(1) show ?thesis
    by (auto simp: safeValidateOrder_def OrderSchema_safeParse_def Let_def parsed_def
          property_def new
        split: prod.splits sum.splits option.splits Option.bind_splits)
qed

lemma bad_phone_rejected:
  assumes "\<not> ALGERIAN_PHONE_REGEX p"
  shows "isl (fst (safeValidateOrder (JObj ((''phone'', JStr p) # fs)) r))"
proof -
  have "z_string [Regex ALGERIAN_PHONE_REGEX, Trim] (Some (JStr p)) = Inl [invalid_string]"
    using assms by (simp add: z_string_def)
  then show ?thesis
    by (simp add: safeValidateOrder_def OrderSchema_safeParse_def Let_def parsed_def property_def
        split: prod.splits sum.splits option.splits)
qed

section \<open>The validator\<close>

text \<open>
  Claim C8. \<^verbatim>\<open>calculateTotal\<close> is the base price, 1600, plus the surcharge of the delivery
  option, 800 for home and 500 for office. The validator does not look at
  \<^verbatim>\<open>calculateTotal\<close>: in any submission it accepts, the total price may be replaced by any
  positive number up to 1000000 and the submission is still accepted, with that number as
  its total price and everything else, the delivery option included, as before.
\<close>

theorem C8_total_price_trusted:
  "calculateTotal home = BASE_PRICE + DELIVERY_HOME
   \<and> calculateTotal office = BASE_PRICE + DELIVERY_OFFICE
   \<and> BASE_PRICE = 1600 \<and> DELIVERY_HOME = 800 \<and> DELIVERY_OFFICE = 500
   \<and> (\<forall>fs r d p. fst (safeValidateOrder (JObj fs) r) = Inr d \<longrightarrow> 0 < p \<longrightarrow> p \<le> 1000000 \<longrightarrow>
         fst (safeValidateOrder (JObj ((''totalPrice'', JNum p) # fs)) r)
           = Inr (d\<lparr>totalPrice := p\<rparr>))"
  by (auto simp: calculateTotal_def BASE_PRICE_def DELIVERY_HOME_def DELIVERY_OFFICE_def
        safeValidateOrder_def OrderSchema_safeParse_def Let_def parsed_def property_def
        z_number_def
      split: prod.splits sum.splits option.splits Option.bind_splits)

theorem C8_total_price_trusted_witness:
  "fst (safeValidateOrder (sample_submission ''Ali Benali'' ''0555123456'' 2400) sample_rng)
     = Inr sample_order
   \<and> (0::rat) < 1 \<and> (1::rat) \<le> 1000000
   \<and> fst (safeValidateOrder
            (JObj ((''totalPrice'', JNum 1)
                   # (''clientRequestId'', JStr sample_id)
                   # sample_fields ''Ali Benali'' ''0555123456'' 2400)) sample_rng)
       = Inr (sample_order\<lparr>totalPrice := 1\<rparr>)
   \<and> deliveryOption (sample_order\<lparr>totalPrice := 1\<rparr>) = home
   \<and> calculateTotal home = 2400"
proof -
  have accepted:
    "fst (safeValidateOrder
            (JObj ((''clientRequestId'', JStr sample_id)
                   # sample_fields ''Ali Benali'' ''0555123456'' 2400)) sample_rng)
       = Inr sample_order"
    using sample_submission_valid by (simp add: sample_submission_def)
  have price: "(0::rat) < 1" "(1::rat) \<le> 1000000" by simp_all
  from C8_total_price_trusted have total: "calculateTotal home = 2400" by simp
  from C8_total_price_trusted accepted price
  have "fst (safeValidateOrder
               (JObj ((''totalPrice'', JNum 1)
                      # (''clientRequestId'', JStr sample_id)
                      # sample_fields ''Ali Benali'' ''0555123456'' 2400)) sample_rng)
          = Inr (sample_order\<lparr>totalPrice := 1\<rparr>)"
    by blast
  with accepted total show ?thesis
    by (simp add: sample_submission_def sample_order_def)
qed

text \<open>
  Claim C2, as stated: the inputs "+213555123456" and "0555123456" are both accepted and
  give the same normalized phone value. They are both accepted, but the two validated
  orders hold different phone values.
\<close>

theorem C2_counterexample:
  "map_sum id phone
     (fst (safeValidateOrder (sample_submission ''Ali Benali'' ''+213555123456'' 2400) sample_rng))
     = Inr ''+213555123456''
   \<and> map_sum id phone
     (fst (safeValidateOrder (sample_submission ''Ali Benali'' ''0555123456'' 2400) sample_rng))
     = Inr ''0555123456''
   \<and> ''+213555123456'' \<noteq> ''0555123456''"
  by code_simp

text \<open>
  Claim C2, amended. The validator keeps the phone as it was sent: the phone of a
  validated order is the string of the submission. In a submission that is accepted, the
  phone may be replaced by "+213555123456" or by "0555123456" and the submission is still
  accepted, the validated order holding that very string; a submission whose phone is
  "0455123456" is rejected.
\<close>

theorem C2_phone_kept_as_sent:
  "(\<forall>fs r d. fst (safeValidateOrder (JObj fs) r) = Inr d \<longrightarrow>
      property fs ''phone'' = Some (JStr (phone d))
      \<and> fst (safeValidateOrder (JObj ((''phone'', JStr ''+213555123456'') # fs)) r)
          = Inr (d\<lparr>phone := ''+213555123456''\<rparr>)
      \<and> fst (safeValidateOrder (JObj ((''phone'', JStr ''0555123456'') # fs)) r)
          = Inr (d\<lparr>phone := ''0555123456''\<rparr>))
   \<and> (\<forall>fs r. isl (fst (safeValidateOrder (JObj ((''phone'', JStr ''0455123456'') # fs)) r)))"
  using replace_phone [OF _ phone_international] replace_phone [OF _ phone_domestic]
    bad_phone_rejected [OF phone_bad_prefix] validated_fields(3) z_string_phone
  by blast

theorem C2_phone_kept_as_sent_witness:
  "fst (safeValidateOrder (sample_submission ''Ali Benali'' ''0555123456'' 2400) sample_rng)
     = Inr sample_order
   \<and> fst (safeValidateOrder
            (JObj ((''phone'', JStr ''+213555123456'')
                   # (''clientRequestId'', JStr sample_id)
                   # sample_fields ''Ali Benali'' ''0555123456'' 2400)) sample_rng)
       = Inr (sample_order\<lparr>phone := ''+213555123456''\<rparr>)
   \<and> phone sample_order = ''0555123456''"
proof -
  have accepted:
    "fst (safeValidateOrder
            (JObj ((''clientRequestId'', JStr sample_id)
                   # sample_fields ''Ali Benali'' ''0555123456'' 2400)) sample_rng)
       = Inr sample_order"
    using sample_submission_valid by (simp add: sample_submission_def)
  from C2_phone_kept_as_sent accepted
  have "fst (safeValidateOrder
               (JObj ((''phone'', JStr ''+213555123456'')
                      # (''clientRequestId'', JStr sample_id)
                      # sample_fields ''Ali Benali'' ''0555123456'' 2400)) sample_rng)
          = Inr (sample_order\<lparr>phone := ''+213555123456''\<rparr>)"
    by blast
  with accepted show ?thesis
    by (simp add: sample_submission_def sample_order_def)
qed

text \<open>
  Claim C3 at the submission whose full name is two spaces: the length check sees the two
  spaces, the trimming comes after it, and the submission is accepted with an empty full
  name, although the trimmed name has fewer than two characters.
\<close>

theorem C3_blank_name_accepted:
  "map_sum id fullName
     (fst (safeValidateOrder (sample_submission ''  '' ''0555123456'' 2400) sample_rng)) = Inr []
   \<and> length (trim ''  '') < 2"
  by code_simp

text \<open>
  Claim C6, as stated: two runs of the validator on the same submission give the same
  result, the \<^verbatim>\<open>clientRequestId\<close> included. On a submission without \<^verbatim>\<open>clientRequestId\<close> the
  second run follows the first on the random source and gives another identifier.
\<close>

theorem C6_counterexample:
  "map_sum id clientRequestId
     (fst (safeValidateOrder (JObj (sample_fields ''Ali Benali'' ''0555123456'' 2400)) sample_rng))
     = Inr ''aaaaaaaa-aaaa-4aaa-8aaa-aaaaaaaaaaaa''
   \<and> map_sum id clientRequestId
     (fst (safeValidateOrder (JObj (sample_fields ''Ali Benali'' ''0555123456'' 2400))
            (snd (safeValidateOrder (JObj (sample_fields ''Ali Benali'' ''0555123456'' 2400))
                    sample_rng))))
     = Inr ''bbbbbbbb-bbbb-4bbb-8bbb-bbbbbbbbbbbb''
   \<and> fst (safeValidateOrder (JObj (sample_fields ''Ali Benali'' ''0555123456'' 2400)) sample_rng)
     \<noteq> fst (safeValidateOrder (JObj (sample_fields ''Ali Benali'' ''0555123456'' 2400))
            (snd (safeValidateOrder (JObj (sample_fields ''Ali Benali'' ''0555123456'' 2400))
                    sample_rng)))"
  by code_simp

text \<open>
  Claim C6, amended. Whether a submission is accepted, the issues of a rejected one and
  every field of the validated order other than \<^verbatim>\<open>clientRequestId\<close> are determined by the
  submission alone. When the submission is not an object, or is an object that has a
  \<^verbatim>\<open>clientRequestId\<close>, the whole result is determined by the submission and the random
  source is left as it was.
\<close>

theorem C6_deterministic_apart_from_default:
  "map_sum id (\<lambda>d. d\<lparr>clientRequestId := []\<rparr>) (fst (safeValidateOrder data r1))
     = map_sum id (\<lambda>d. d\<lparr>clientRequestId := []\<rparr>) (fst (safeValidateOrder data r2))
   \<and> ((\<forall>fs. data = JObj fs \<longrightarrow> property fs ''clientRequestId'' \<noteq> None) \<longrightarrow>
        fst (safeValidateOrder data r1) = fst (safeValidateOrder data r2)
        \<and> snd (safeValidateOrder data r1) = r1)"
proof (cases data)
  case (JObj fs)
  show ?thesis
  proof (cases "property fs ''clientRequestId''")
    case None
    with JObj show ?thesis
      by (simp add: safeValidateOrder_def OrderSchema_safeParse_def default_absent Let_def
           parsed_Inr at_path_Inr split: sum.splits option.splits Option.bind_splits)
  next
    case (Some x)
    with JObj show ?thesis
      by (simp add: safeValidateOrder_def OrderSchema_safeParse_def default_present Let_def
          split: sum.splits option.splits)
  qed
qed (simp_all add: safeValidateOrder_def OrderSchema_safeParse_def)

theorem C6_deterministic_apart_from_default_witness:
  "property ((''clientRequestId'', JStr sample_id) # sample_fields ''Ali Benali'' ''0555123456'' 2400)
     ''clientRequestId'' = Some (JStr sample_id)
   \<and> fst (safeValidateOrder (sample_submission ''Ali Benali'' ''0555123456'' 2400) sample_rng)
     = fst (safeValidateOrder (sample_submission ''Ali Benali'' ''0555123456'' 2400) (\<lambda>n. []))
   \<and> snd (safeValidateOrder (sample_submission ''Ali Benali'' ''0555123456'' 2400) sample_rng)
     = sample_rng"
proof -
  have token:
    "property ((''clientRequestId'', JStr sample_id) # sample_fields ''Ali Benali'' ''0555123456'' 2400)
       ''clientRequestId'' = Some (JStr sample_id)"
    by (simp add: property_def)
  then have supplied:
    "\<forall>fs. sample_submission ''Ali Benali'' ''0555123456'' 2400 = JObj fs
          \<longrightarrow> property fs ''clientRequestId'' \<noteq> None"
    by (simp add: sample_submission_def)
  with C6_deterministic_apart_from_default
         [of "sample_submission ''Ali Benali'' ''0555123456'' 2400" sample_rng "\<lambda>n. []"] token
  show ?thesis by blast
qed

section \<open>The retry wrapper with three retries\<close>

lemma withRetry_3_unrolled:
  "withRetry fn 3 b s =
     (case fn s of
        (Inr v, s1) \<Rightarrow> (Inr v, s1, [Invoke])
      | (Inl e1, s1) \<Rightarrow>
          (case fn s1 of
             (Inr v, s2) \<Rightarrow> (Inr v, s2, [Invoke, Sleep b, Invoke])
           | (Inl e2, s2) \<Rightarrow>
               (case fn s2 of
                  (Inr v, s3) \<Rightarrow>
                    (Inr v, s3, [Invoke, Sleep b, Invoke, Sleep (b * 2), Invoke])
                | (Inl e3, s3) \<Rightarrow>
                    (case fn s3 of
                       (Inr v, s4) \<Rightarrow>
                         (Inr v, s4,
                          [Invoke, Sleep b, Invoke, Sleep (b * 2), Invoke, Sleep (b * 4),
                           Invoke])
                     | (Inl e4, s4) \<Rightarrow>
                         (Inl (Some e4), s4,
                          [Invoke, Sleep b, Invoke, Sleep (b * 2), Invoke, Sleep (b * 4),
                           Invoke])))))"
  by (simp add: withRetry_def split: prod.splits sum.splits)

text \<open>
  Claim C4. With three retries and a base delay of 1000 ms, whatever the operation does.
  The operation is called again after every failure, up to four calls in all, and never
  after a success: the number of calls is the position of the first success among the
  first four calls, and four when all four fail. The trace is the start of
  call, wait 1000, call, wait 2000, call, wait 4000, call that ends with the last call
  made, so the wait before retry \<open>k\<close> is \<open>1000 * 2 ^ k\<close> and nothing follows the last
  call. The result is that of the last call made, a value or its error, and the state is
  the one that call left; so the wrapper fails exactly when all four calls fail, and then
  with the error of the fourth call. Renaming the errors of the operation by any function
  changes neither the calls nor the waits nor the final state, only the name of the error
  surfaced: the wrapper does not look at the error.
\<close>

theorem C4_retry_schedule:
  fixes fn :: "'s \<Rightarrow> ('e + 'a) \<times> 's" and g :: "'e \<Rightarrow> 'f"
  shows
  "(let r1 = fn s; r2 = fn (snd r1); r3 = fn (snd r2); r4 = fn (snd r3);
        (result, s', tr) = withRetry fn 3 1000 s;
        calls = length (filter (\<lambda>ev. ev = Invoke) tr);
        final = (if isl (fst r1) then if isl (fst r2) then if isl (fst r3) then r4 else r3
                                      else r2
                 else r1)
    in 1 \<le> calls \<and> calls \<le> 4
     \<and> calls = (if isl (fst r1) then if isl (fst r2) then if isl (fst r3) then 4 else 3
                                    else 2
                 else 1)
     \<and> tr = take (2 * calls - 1)
               [Invoke, Sleep (1000 * 2 ^ 0), Invoke, Sleep (1000 * 2 ^ 1), Invoke,
                Sleep (1000 * 2 ^ 2), Invoke]
     \<and> result = (case fst final of Inl err \<Rightarrow> Inl (Some err) | Inr v \<Rightarrow> Inr v)
     \<and> s' = snd final
     \<and> (isl result \<longleftrightarrow> isl (fst r1) \<and> isl (fst r2) \<and> isl (fst r3) \<and> isl (fst r4))
     \<and> (isl result \<longrightarrow> calls = 4 \<and> result = Inl (Some (projl (fst r4))) \<and> s' = snd r4)
     \<and> withRetry (\<lambda>x. map_prod (map_sum g id) id (fn x)) 3 1000 s
         = (map_sum (map_option g) id result, s', tr))"
proof -
  obtain a1 s1 where r1: "fn s = (a1, s1)" by (cases "fn s")
  obtain a2 s2 where r2: "fn s1 = (a2, s2)" by (cases "fn s1")
  obtain a3 s3 where r3: "fn s2 = (a3, s3)" by (cases "fn s2")
  obtain a4 s4 where r4: "fn s3 = (a4, s4)" by (cases "fn s3")
  show ?thesis
    by (cases a1; cases a2; cases a3; cases a4)
       (simp_all add: withRetry_3_unrolled Let_def r1 r2 r3 r4)
qed

theorem C4_retry_schedule_witness:
  "isl (fst (withRetry always_failing 3 1000 0))
   \<and> withRetry always_failing 3 1000 0
       = (Inl (Some 3), 4, [Invoke, Sleep 1000, Invoke, Sleep 2000, Invoke, Sleep 4000, Invoke])
   \<and> withRetry failing_twice 3 1000 0
       = (Inr 2, 3, [Invoke, Sleep 1000, Invoke, Sleep 2000, Invoke])"
proof -
  have "isl (fst (withRetry always_failing 3 1000 0))
        \<and> withRetry always_failing 3 1000 0
            = (Inl (Some 3), 4,
               [Invoke, Sleep 1000, Invoke, Sleep 2000, Invoke, Sleep 4000, Invoke])"
    using C4_retry_schedule [of always_failing 0 id]
    by (simp add: withRetry_3_unrolled always_failing_def Let_def)
  moreover have "withRetry failing_twice 3 1000 0
                   = (Inr 2, 3, [Invoke, Sleep 1000, Invoke, Sleep 2000, Invoke])"
    using C4_retry_schedule [of failing_twice 0 id]
    by (simp add: withRetry_3_unrolled failing_twice_def Let_def)
  ultimately show ?thesis by blast
qed

section \<open>What the retry wrapper leaves alone\<close>


section \<open>The spreadsheet when it answers\<close>


lemma display_frame [simp]:
  "display (w\<lparr>sheets_calls := cs\<rparr>) = display w"
  "display (w\<lparr>sheet := L\<rparr>) = display w"
  "display (w\<lparr>sheets_faults := fs\<rparr>) = display w"
  "display (w\<lparr>smtp_faults := fs\<rparr>) = display w"
  "display (w\<lparr>outbox := ob\<rparr>) = display w"
  "display (w\<lparr>random := r\<rparr>) = display w"
  by (auto simp: display_def fun_eq_iff split: cell.splits)


lemma ready_calls [simp]: "ready sid (w\<lparr>sheets_calls := cs\<rparr>) = ready sid w"
  by (simp add: ready_def)

lemma ready_sheet [simp]: "ready sid (w\<lparr>sheet := L\<rparr>) = ready sid w"
  by (simp add: ready_def)






lemma formatOrderRow_frame [simp]:
  "formatOrderRow e (w\<lparr>sheets_calls := cs\<rparr>) d = formatOrderRow e w d"
  "formatOrderRow e (w\<lparr>sheet := L\<rparr>) d = formatOrderRow e w d"
  by (simp_all add: formatOrderRow_def)




section \<open>The integrations when their configuration is missing\<close>

lemma saveOrder_without_credentials:
  assumes "falsy (GOOGLE_SERVICE_ACCOUNT_EMAIL e) \<or> falsy (GOOGLE_PRIVATE_KEY e)"
    and "SHEETS_ENABLED e \<noteq> Some ''false''"
  shows "\<not> success (fst (saveOrder e d w))" and "snd (saveOrder e d w) = w"
  using assms
  by (auto simp: saveOrder_def withRetry_3_unrolled saveOrder_attempt_def getSheetsClient_def)

lemma sendOrderEmail_without_configuration:
  assumes "falsy (SMTP_FROM_EMAIL e) \<or> falsy (SMTP_PASSWORD e)"
  shows "\<not> success (fst (sendOrderEmail e d w))" and "snd (sendOrderEmail e d w) = w"
  using assms
  by (auto simp: sendOrderEmail_def withRetry_3_unrolled sendOrderEmail_attempt_def
        createTransporter_def)

lemma checkDuplicateOrder_without_credentials:
  assumes "falsy (GOOGLE_SERVICE_ACCOUNT_EMAIL e) \<or> falsy (GOOGLE_PRIVATE_KEY e)"
  shows "checkDuplicateOrder e t w = (False, w)"
  using assms
  by (auto simp: checkDuplicateOrder_def checkDuplicateOrder_try_def getSheetsClient_def)

lemma checkDuplicateOrder_inoperative:
  assumes "SHEETS_ENABLED e = Some ''false'' \<or> falsy (GOOGLE_SHEET_ID e)"
  shows "checkDuplicateOrder e token w = (False, w)"
  using assms by (auto simp: checkDuplicateOrder_def checkDuplicateOrder_try_def)

section \<open>The notifier touches the mail transport only\<close>


lemma smtp_request_outbox:
  "outbox (snd (smtp_request x)) = outbox x"
  by (simp add: smtp_request_def split: list.splits)




section \<open>A submission that carries its token\<close>

lemma validate_supplied:
  assumes "property fs ''clientRequestId'' = Some x"
  shows "snd (safeValidateOrder (JObj fs) r) = r"
    and "fst (safeValidateOrder (JObj fs) r) = fst (safeValidateOrder (JObj fs) r')"
  using assms
  by (simp_all add: safeValidateOrder_def OrderSchema_safeParse_def default_present Let_def
      split: sum.splits option.splits)


lemma sample_submission_validated:
  "safeValidateOrder (sample_submission ''Ali Benali'' ''0555123456'' 2400) (random sample_world)
     = (Inr sample_order, sample_rng)"
proof -
  have "property ((''clientRequestId'', JStr sample_id) # sample_fields ''Ali Benali'' ''0555123456'' 2400)
          ''clientRequestId'' = Some (JStr sample_id)"
    by (simp add: property_def)
  from validate_supplied(1) [OF this, of sample_rng] sample_submission_valid
  show ?thesis
    by (simp add: sample_submission_def sample_world_def prod_eq_iff)
qed






section \<open>The ledger writer and the duplicate guard\<close>

text \<open>
  Claim C5, as stated: with \<^verbatim>\<open>SHEETS_ENABLED\<close> set to "false", \<^verbatim>\<open>saveOrder\<close> succeeds whatever
  the other variables are, an unset \<^verbatim>\<open>GOOGLE_SHEET_ID\<close> included. With \<^verbatim>\<open>GOOGLE_SHEET_ID\<close>
  unset it reports a failure: the document id is looked at before the switch.
\<close>

theorem C5_counterexample:
  "SHEETS_ENABLED env_sheets_off_no_id = Some ''false''
   \<and> GOOGLE_SHEET_ID env_sheets_off_no_id = None
   \<and> fst (saveOrder env_sheets_off_no_id sample_order sample_world)
       = \<lparr>success = False, rowNumber = None,
          error = Some ''GOOGLE_SHEET_ID environment variable is not set''\<rparr>"
  by (simp add: saveOrder_def env_sheets_off_no_id_def sample_env_def falsy_def)

text \<open>
  Claim C5, amended. With \<^verbatim>\<open>SHEETS_ENABLED\<close> set to "false", for every order and every
  state of the world, \<^verbatim>\<open>saveOrder\<close> leaves the world as it is (no request, no write) and
  returns success when \<^verbatim>\<open>GOOGLE_SHEET_ID\<close> is set to a non-empty value, and the failure
  "GOOGLE_SHEET_ID environment variable is not set" when it is not. (The second conjunct
  adds that this failure for a missing \<^verbatim>\<open>GOOGLE_SHEET_ID\<close> is returned before the switch is
  looked at.)
\<close>

theorem C5_disabled_short_circuit:
  "(SHEETS_ENABLED e = Some ''false'' \<longrightarrow>
      saveOrder e orderData w =
        (if falsy (GOOGLE_SHEET_ID e)
         then (\<lparr>success = False, rowNumber = None,
                error = Some ''GOOGLE_SHEET_ID environment variable is not set''\<rparr>, w)
         else (\<lparr>success = True, rowNumber = None, error = None\<rparr>, w)))
   \<and> (falsy (GOOGLE_SHEET_ID e) \<longrightarrow>
      saveOrder e orderData w =
        (\<lparr>success = False, rowNumber = None,
          error = Some ''GOOGLE_SHEET_ID environment variable is not set''\<rparr>, w))"
  by (simp add: saveOrder_def)

theorem C5_disabled_short_circuit_witness:
  "SHEETS_ENABLED env_sheets_off = Some ''false''
   \<and> GOOGLE_SHEET_ID env_sheets_off = Some ''sheet-1''
   \<and> saveOrder env_sheets_off sample_order sample_world
       = (\<lparr>success = True, rowNumber = None, error = None\<rparr>, sample_world)"
proof -
  have off: "SHEETS_ENABLED env_sheets_off = Some ''false''"
    and doc: "GOOGLE_SHEET_ID env_sheets_off = Some ''sheet-1''"
    by (simp_all add: env_sheets_off_def sample_env_def)
  from C5_disabled_short_circuit [of env_sheets_off sample_order sample_world] off doc
  show ?thesis by (simp add: falsy_def)
qed

text \<open>
  Claim C9. The duplicate guard fails open. Whatever is thrown inside its \<^verbatim>\<open>try\<close>, the
  guard returns \<^verbatim>\<open>false\<close>; and when the integration is configured and switched on and
  the query for column A of the ledger raises an error, that error is what is thrown
  inside the \<^verbatim>\<open>try\<close>, and the guard returns \<^verbatim>\<open>false\<close>, for every token. The guard is a
  function to \<^typ>\<open>bool\<close>: nothing is thrown past it.
\<close>

theorem C9_fails_open:
  "(\<forall>m. fst (checkDuplicateOrder_try e token w) = Inl m \<longrightarrow> \<not> fst (checkDuplicateOrder e token w))
   \<and> (\<not> falsy (GOOGLE_SHEET_ID e) \<and> SHEETS_ENABLED e \<noteq> Some ''false''
        \<and> getSheetsClient e = Inr ()
        \<and> fst (values_get_A2_A (the (GOOGLE_SHEET_ID e))
                 (fst (getFirstSheetName (the (GOOGLE_SHEET_ID e)) w))
                 (snd (getFirstSheetName (the (GOOGLE_SHEET_ID e)) w))) = Inl m
      \<longrightarrow> fst (checkDuplicateOrder_try e token w) = Inl m
          \<and> \<not> fst (checkDuplicateOrder e token w))"
  by (auto simp: checkDuplicateOrder_def checkDuplicateOrder_try_def Let_def
      split: prod.splits sum.splits)

lemma outage_query_fails:
  "fst (values_get_A2_A (the (GOOGLE_SHEET_ID sample_env))
          (fst (getFirstSheetName (the (GOOGLE_SHEET_ID sample_env)) world_outage))
          (snd (getFirstSheetName (the (GOOGLE_SHEET_ID sample_env)) world_outage)))
     = Inl ''ECONNRESET''"
  by code_simp

lemma outage_record_exists: "sheet world_outage = [HEADER_ROW, [Str sample_id]]"
  by (simp add: world_outage_def world_with_record_def)

theorem C9_fails_open_witness:
  "\<not> falsy (GOOGLE_SHEET_ID sample_env) \<and> SHEETS_ENABLED sample_env \<noteq> Some ''false''
   \<and> getSheetsClient sample_env = Inr ()
   \<and> fst (values_get_A2_A (the (GOOGLE_SHEET_ID sample_env))
            (fst (getFirstSheetName (the (GOOGLE_SHEET_ID sample_env)) world_outage))
            (snd (getFirstSheetName (the (GOOGLE_SHEET_ID sample_env)) world_outage)))
       = Inl ''ECONNRESET''
   \<and> sheet world_outage = [HEADER_ROW, [Str sample_id]]
   \<and> fst (checkDuplicateOrder_try sample_env sample_id world_outage) = Inl ''ECONNRESET''
   \<and> \<not> fst (checkDuplicateOrder sample_env sample_id world_outage)"
proof -
  have config: "\<not> falsy (GOOGLE_SHEET_ID sample_env)" "SHEETS_ENABLED sample_env \<noteq> Some ''false''"
    "getSheetsClient sample_env = Inr ()"
    by (simp_all add: sample_env_def falsy_def getSheetsClient_def)
  from C9_fails_open [of sample_env sample_id world_outage "''ECONNRESET''"]
    config outage_query_fails
  have "fst (checkDuplicateOrder_try sample_env sample_id world_outage) = Inl ''ECONNRESET''
        \<and> \<not> fst (checkDuplicateOrder sample_env sample_id world_outage)"
    by blast
  with config outage_query_fails outage_record_exists show ?thesis by blast
qed

text \<open>
  Claim C10. When \<^verbatim>\<open>SHEETS_ENABLED\<close> is "false" or \<^verbatim>\<open>GOOGLE_SHEET_ID\<close> is unset (or empty),
  the duplicate guard returns \<^verbatim>\<open>false\<close> for every token and leaves the world as it is, so
  no request reaches the ledger; and the handler does not answer 409, whatever the request
  and whatever the ledger holds.
\<close>

theorem C10_guard_inoperative:
  assumes "SHEETS_ENABLED e = Some ''false'' \<or> falsy (GOOGLE_SHEET_ID e)"
  shows "checkDuplicateOrder e token w = (False, w) \<and> status (fst (POST e req w)) \<noteq> 409"
proof
  show "checkDuplicateOrder e token w = (False, w)"
    using assms by (rule checkDuplicateOrder_inoperative)
  show "status (fst (POST e req w)) \<noteq> 409"
    by (simp add: POST_def checkDuplicateOrder_inoperative [OF assms] failure_def Let_def
        split: request.splits sum.splits prod.splits list.splits)
qed

lemma recorded_token: "sheet world_with_record = [HEADER_ROW, [Str sample_id]]"
  by (simp add: world_with_record_def)

theorem C10_guard_inoperative_witness:
  "SHEETS_ENABLED env_sheets_off = Some ''false''
   \<and> sheet world_with_record = [HEADER_ROW, [Str sample_id]]
   \<and> checkDuplicateOrder env_sheets_off sample_id world_with_record = (False, world_with_record)
   \<and> status (fst (POST env_sheets_off
                    (Resolves (sample_submission ''Ali Benali'' ''0555123456'' 2400))
                    world_with_record)) \<noteq> 409"
proof -
  have off: "SHEETS_ENABLED env_sheets_off = Some ''false''"
    by (simp add: env_sheets_off_def)
  then have "SHEETS_ENABLED env_sheets_off = Some ''false'' \<or> falsy (GOOGLE_SHEET_ID env_sheets_off)"
    by simp
  from C10_guard_inoperative [OF this] off recorded_token show ?thesis by blast
qed

section \<open>The orchestrator\<close>

text \<open>
  Claim C1, as stated: when exactly one integration is enabled and it fails, the answer is
  500. With the ledger switched off and the notifier enabled but failing (no SMTP
  password), a valid submission that is not a duplicate is answered 200, with
  \<^verbatim>\<open>sheetSaved: true\<close> and \<^verbatim>\<open>emailSent: false\<close>.
\<close>

theorem C1_counterexample:
  "fst (safeValidateOrder (sample_submission ''Ali Benali'' ''0555123456'' 2400) (random sample_world))
     = Inr sample_order
   \<and> \<not> fst (checkDuplicateOrder env_sheets_off_no_smtp (clientRequestId sample_order) sample_world)
   \<and> SHEETS_ENABLED env_sheets_off_no_smtp = Some ''false''
   \<and> EMAIL_ENABLED env_sheets_off_no_smtp \<noteq> Some ''false''
   \<and> \<not> success (fst (sendOrderEmail env_sheets_off_no_smtp sample_order sample_world))
   \<and> status (fst (POST env_sheets_off_no_smtp
                    (Resolves (sample_submission ''Ali Benali'' ''0555123456'' 2400))
                    sample_world)) = 200
   \<and> sheetSaved (fst (POST env_sheets_off_no_smtp
                    (Resolves (sample_submission ''Ali Benali'' ''0555123456'' 2400))
                    sample_world)) = Some True
   \<and> emailSent (fst (POST env_sheets_off_no_smtp
                    (Resolves (sample_submission ''Ali Benali'' ''0555123456'' 2400))
                    sample_world)) = Some False"
  by code_simp

text \<open>
  Claim C1, amended. For a submission that passes validation and the duplicate check, with
  at least one integration enabled: the answer is 500 exactly when both integrations are
  enabled and both failed; otherwise it is 200 with \<^verbatim>\<open>success: true\<close>, and each of
  \<^verbatim>\<open>sheetSaved\<close> and \<^verbatim>\<open>emailSent\<close> is true when its integration is disabled or succeeded and
  false when it is enabled and failed. A disabled integration counts as succeeded.
\<close>

theorem C1_all_enabled_failed:
  assumes valid: "safeValidateOrder body (random w) = (Inr d, r')"
      and fresh: "checkDuplicateOrder e (clientRequestId d) (w\<lparr>random := r'\<rparr>) = (False, w1)"
      and enabled: "SHEETS_ENABLED e \<noteq> Some ''false'' \<or> EMAIL_ENABLED e \<noteq> Some ''false''"
  shows
  "(let sheetsEnabled = (SHEETS_ENABLED e \<noteq> Some ''false'');
        emailEnabled = (EMAIL_ENABLED e \<noteq> Some ''false'');
        sheetFailed = (sheetsEnabled \<and> \<not> success (fst (saveOrder e d w1)));
        w2 = (if sheetsEnabled then snd (saveOrder e d w1) else w1);
        emailFailed = (emailEnabled \<and> \<not> success (fst (sendOrderEmail e d w2)));
        resp = fst (POST e (Resolves body) w)
    in (status resp = 500 \<longleftrightarrow> sheetsEnabled \<and> emailEnabled \<and> sheetFailed \<and> emailFailed)
     \<and> (status resp \<noteq> 500 \<longrightarrow>
          status resp = 200 \<and> body_success resp
          \<and> sheetSaved resp = Some (\<not> sheetFailed) \<and> emailSent resp = Some (\<not> emailFailed)))"
  using enabled
  by (auto simp: POST_def valid fresh Let_def failure_def split: prod.splits)

theorem C1_all_enabled_failed_witness:
  "safeValidateOrder (sample_submission ''Ali Benali'' ''0555123456'' 2400) (random sample_world)
     = (Inr sample_order, sample_rng)
   \<and> checkDuplicateOrder env_no_credentials (clientRequestId sample_order)
        (sample_world\<lparr>random := sample_rng\<rparr>) = (False, sample_world\<lparr>random := sample_rng\<rparr>)
   \<and> SHEETS_ENABLED env_no_credentials = None
   \<and> EMAIL_ENABLED env_no_credentials = None
   \<and> status (fst (POST env_no_credentials
                    (Resolves (sample_submission ''Ali Benali'' ''0555123456'' 2400))
                    sample_world)) = 500"
proof -
  have keys: "falsy (GOOGLE_SERVICE_ACCOUNT_EMAIL env_no_credentials)
                \<or> falsy (GOOGLE_PRIVATE_KEY env_no_credentials)"
    and smtp: "falsy (SMTP_FROM_EMAIL env_no_credentials) \<or> falsy (SMTP_PASSWORD env_no_credentials)"
    and enabled: "SHEETS_ENABLED env_no_credentials \<noteq> Some ''false''
                    \<or> EMAIL_ENABLED env_no_credentials \<noteq> Some ''false''"
    and both: "SHEETS_ENABLED env_no_credentials \<noteq> Some ''false''"
              "EMAIL_ENABLED env_no_credentials \<noteq> Some ''false''"
    by (simp_all add: env_no_credentials_def sample_env_def falsy_def)
  note fresh = checkDuplicateOrder_without_credentials
                 [OF keys, of "clientRequestId sample_order" "sample_world\<lparr>random := sample_rng\<rparr>"]
  from C1_all_enabled_failed [OF sample_submission_validated fresh enabled]
    saveOrder_without_credentials [OF keys both(1)] sendOrderEmail_without_configuration [OF smtp] both
  have "status (fst (POST env_no_credentials
                    (Resolves (sample_submission ''Ali Benali'' ''0555123456'' 2400))
                    sample_world)) = 500"
    by (simp add: Let_def)
  moreover have "SHEETS_ENABLED env_no_credentials = None"
    and "EMAIL_ENABLED env_no_credentials = None"
    by (simp_all add: env_no_credentials_def sample_env_def)
  ultimately show ?thesis
    using sample_submission_validated fresh by blast
qed




end
